theory Spec2Isabelle
  imports Complex_Main "HOL-Library.Word"
begin

section \<open>Python values\<close>

text \<open>
  The values that \<^verbatim>\<open>response.json()\<close> can yield. A Python float is carried as the
  number it denotes (every finite double is a rational) or as one of the three special
  values; no arithmetic on floats is modelled. A dict is an association list in
  insertion order, each key bound once.
\<close>

datatype pyfloat = Fin rat | PosInf | NegInf | NaN

datatype pyval =
    PNone
  | PBool bool
  | PInt int
  | PFloat pyfloat
  | PStr string
  | PList "pyval list"
  | PDict "(string \<times> pyval) list"

text \<open>The exceptions that the handlers of \<^verbatim>\<open>app.py\<close> do not catch.\<close>

datatype error = TypeError | AttributeError | KeyError string | ValueError | OverflowError

text \<open>Truth value testing, as in \<^verbatim>\<open>if stock_data:\<close> and \<^verbatim>\<open>if not time_series:\<close>.\<close>

fun truthy :: "pyval \<Rightarrow> bool" where
  "truthy PNone = False"
| "truthy (PBool b) = b"
| "truthy (PInt i) = (i \<noteq> 0)"
| "truthy (PFloat f) = (f \<noteq> Fin 0)"
| "truthy (PStr s) = (s \<noteq> [])"
| "truthy (PList xs) = (xs \<noteq> [])"
| "truthy (PDict kvs) = (kvs \<noteq> [])"

fun startswith :: "string \<Rightarrow> string \<Rightarrow> bool" where
  "startswith [] s = True"
| "startswith (p # ps) [] = False"
| "startswith (p # ps) (c # cs) = (p = c \<and> startswith ps cs)"

fun str_contains :: "string \<Rightarrow> string \<Rightarrow> bool" where
  "str_contains p [] = (p = [])"
| "str_contains p (c # cs) = (startswith p (c # cs) \<or> str_contains p cs)"

text \<open>
  \<^verbatim>\<open>key in data\<close> for a string \<^verbatim>\<open>key\<close>: key membership in a dict, element
  membership in a list, substring test in a string, and a TypeError on a value that is
  not a container.
\<close>

fun py_in :: "string \<Rightarrow> pyval \<Rightarrow> error + bool" where
  "py_in k (PDict kvs) = Inr (k \<in> set (map fst kvs))"
| "py_in k (PList xs) = Inr (PStr k \<in> set xs)"
| "py_in k (PStr s) = Inr (str_contains k s)"
| "py_in k v = Inl TypeError"

text \<open>\<^verbatim>\<open>data.get(key)\<close>: only a dict has the method.\<close>

fun py_get :: "pyval \<Rightarrow> string \<Rightarrow> error + pyval" where
  "py_get (PDict kvs) k = Inr (case map_of kvs k of None \<Rightarrow> PNone | Some v \<Rightarrow> v)"
| "py_get v k = Inl AttributeError"

text \<open>\<^verbatim>\<open>value[key]\<close> with a string key.\<close>

fun py_getitem :: "pyval \<Rightarrow> string \<Rightarrow> error + pyval" where
  "py_getitem (PDict kvs) k = (case map_of kvs k of None \<Rightarrow> Inl (KeyError k) | Some v \<Rightarrow> Inr v)"
| "py_getitem v k = Inl TypeError"

text \<open>\<^verbatim>\<open>list(time_series.keys())\<close>.\<close>

fun py_keys :: "pyval \<Rightarrow> error + string list" where
  "py_keys (PDict kvs) = Inr (map fst kvs)"
| "py_keys v = Inl AttributeError"

section \<open>The environment of the application\<close>

text \<open>
  What one call of \<^verbatim>\<open>requests.get(url)\<close>, \<^verbatim>\<open>raise_for_status()\<close> and
  \<^verbatim>\<open>response.json()\<close> comes to: an exception of the class
  \<^verbatim>\<open>requests.RequestException\<close> (connection error, timeout, HTTP error status, a body
  that is not JSON), with its message, or the parsed body.
\<close>

datatype http_outcome = RequestException string | Json pyval

text \<open>A row of the table of the model \<^verbatim>\<open>User\<close>.\<close>

record user =
  user_id :: int
  username :: string
  email :: string
  password_hash :: string

record profile =
  preferred_stocks :: "string list"

text \<open>
  The collaborators of \<^verbatim>\<open>app.py\<close> that are not part of it: the configuration, the
  network, the module \<^verbatim>\<open>data\<close> (\<^verbatim>\<open>get_mock_stock_data\<close>, \<^verbatim>\<open>get_mock_profile\<close>,
  \<^verbatim>\<open>get_mock_recommendations\<close>), the builtin \<^verbatim>\<open>float\<close>, matplotlib, werkzeug's
  password hashing and the e-mail validator of WTForms. The network answers the
  \<open>n\<close>-th request of the process with \<open>requests_get env n url\<close>.
\<close>

record env =
  api_key :: string
  requests_get :: "nat \<Rightarrow> string \<Rightarrow> http_outcome"
  mock_stock_data :: "string \<Rightarrow> pyval"
  mock_profile :: "user option \<Rightarrow> profile"
  mock_recommendations :: pyval
  float_of_str :: "string \<Rightarrow> pyfloat option"
  float_of_int :: "int \<Rightarrow> pyfloat option"
  savefig_png :: "string \<Rightarrow> string list \<Rightarrow> pyfloat list \<Rightarrow> 8 word list"
  generate_password_hash :: "string \<Rightarrow> string"
  check_password_hash :: "string \<Rightarrow> string \<Rightarrow> bool"
  email_valid :: "string \<Rightarrow> bool"

section \<open>The state of the application\<close>

record session =
  session_user_id :: int
  remember :: bool

record world =
  users :: "user list"
  current_session :: "session option"
  flashes :: "(string \<times> string) list"
  logged :: "string list"
  http_calls :: nat

definition flash :: "string \<Rightarrow> string \<Rightarrow> world \<Rightarrow> world" where
  "flash category message st = st\<lparr>flashes := flashes st @ [(category, message)]\<rparr>"

definition logger_error :: "string \<Rightarrow> world \<Rightarrow> world" where
  "logger_error message st = st\<lparr>logged := logged st @ [message]\<rparr>"

section \<open>Stock data with the mock fallback\<close>

definition stock_url :: "env \<Rightarrow> string \<Rightarrow> string" where
  "stock_url env ticker =
     ''https://www.alphavantage.co/query?'' @ ''function='' @ ''TIME_SERIES_DAILY''
       @ ''&symbol='' @ ticker @ ''&apikey='' @ api_key env"

definition get_stock_data :: "env \<Rightarrow> string \<Rightarrow> world \<Rightarrow> (error + pyval) \<times> world" where
  "get_stock_data env ticker st =
     (let st1 = st\<lparr>http_calls := Suc (http_calls st)\<rparr> in
      case requests_get env (http_calls st) (stock_url env ticker) of
        RequestException e \<Rightarrow>
          (Inr (mock_stock_data env ticker),
           logger_error (''Request failed for '' @ ticker @ '': '' @ e) st1)
      | Json data \<Rightarrow>
          (case py_in ''Error Message'' data of
             Inl err \<Rightarrow> (Inl err, st1)
           | Inr True \<Rightarrow>
               (Inr (mock_stock_data env ticker),
                logger_error (''Error retrieving data for '' @ ticker) st1)
           | Inr False \<Rightarrow>
               (case py_get data ''Time Series (Daily)'' of
                  Inl err \<Rightarrow> (Inl err, st1)
                | Inr time_series \<Rightarrow>
                    if \<not> truthy time_series then (Inr (mock_stock_data env ticker), st1)
                    else (Inr time_series, st1))))"

section \<open>Dynamic graph creation\<close>

text \<open>The builtin \<^verbatim>\<open>float\<close> on a value of a parsed response.\<close>

fun py_float :: "env \<Rightarrow> pyval \<Rightarrow> error + pyfloat" where
  "py_float env (PStr s) = (case float_of_str env s of None \<Rightarrow> Inl ValueError | Some f \<Rightarrow> Inr f)"
| "py_float env (PInt i) = (case float_of_int env i of None \<Rightarrow> Inl OverflowError | Some f \<Rightarrow> Inr f)"
| "py_float env (PBool b) = Inr (Fin (if b then 1 else 0))"
| "py_float env (PFloat f) = Inr f"
| "py_float env v = Inl TypeError"

text \<open>
  \<^verbatim>\<open>[float(time_series[date]['4. close']) for date in dates]\<close>: the first date whose
  close value cannot be read ends the comprehension with its exception.
\<close>

fun close_prices :: "env \<Rightarrow> pyval \<Rightarrow> string list \<Rightarrow> error + pyfloat list" where
  "close_prices env time_series [] = Inr []"
| "close_prices env time_series (date # dates) =
     (case py_getitem time_series date of
        Inl e \<Rightarrow> Inl e
      | Inr row \<Rightarrow>
          (case py_getitem row ''4. close'' of
             Inl e \<Rightarrow> Inl e
           | Inr v \<Rightarrow>
               (case py_float env v of
                  Inl e \<Rightarrow> Inl e
                | Inr f \<Rightarrow>
                    (case close_prices env time_series dates of
                       Inl e \<Rightarrow> Inl e
                     | Inr fs \<Rightarrow> Inr (f # fs)))))"

text \<open>
  \<^verbatim>\<open>base64.b64encode\<close>: the standard alphabet, three bytes to four characters, the
  last group padded with \<open>=\<close>.
\<close>

definition b64_alphabet :: string where
  "b64_alphabet = ''ABCDEFGHIJKLMNOPQRSTUVWXYZabcdefghijklmnopqrstuvwxyz0123456789+/''"

definition b64_char :: "nat \<Rightarrow> char" where
  "b64_char n = b64_alphabet ! (n mod 64)"

fun b64encode :: "8 word list \<Rightarrow> string" where
  "b64encode (a # b # c # rest) =
     (let n = unat a * 65536 + unat b * 256 + unat c in
      b64_char (n div 262144) # b64_char (n div 4096) # b64_char (n div 64) # b64_char n
        # b64encode rest)"
| "b64encode [a, b] =
     (let n = unat a * 65536 + unat b * 256 in
      [b64_char (n div 262144), b64_char (n div 4096), b64_char (n div 64), CHR ''=''])"
| "b64encode [a] =
     (let n = unat a * 65536 in
      [b64_char (n div 262144), b64_char (n div 4096), CHR ''='', CHR ''=''])"
| "b64encode [] = []"

text \<open>
  The calls of matplotlib between \<^verbatim>\<open>plt.figure\<close> and \<^verbatim>\<open>plt.savefig\<close> are the function
  \<open>savefig_png\<close> of the environment, from the title, the dates and the prices to the bytes
  of the image.
\<close>

definition create_stock_graph :: "env \<Rightarrow> string \<Rightarrow> pyval \<Rightarrow> error + string" where
  "create_stock_graph env ticker time_series =
     (case py_keys time_series of
        Inl e \<Rightarrow> Inl e
      | Inr dates \<Rightarrow>
          (case close_prices env time_series dates of
             Inl e \<Rightarrow> Inl e
           | Inr prices \<Rightarrow>
               Inr (''data:image/png;base64,''
                    @ b64encode (savefig_png env (''Stock Prices for '' @ ticker) dates prices))))"

section \<open>Models\<close>

definition set_password :: "env \<Rightarrow> user \<Rightarrow> string \<Rightarrow> user" where
  "set_password env u password = u\<lparr>password_hash := generate_password_hash env password\<rparr>"

definition check_password :: "env \<Rightarrow> user \<Rightarrow> string \<Rightarrow> bool" where
  "check_password env u password = check_password_hash env (password_hash u) password"

text \<open>\<^verbatim>\<open>User.query.get(int(user_id))\<close>, the user loader of the login manager.\<close>

definition load_user :: "world \<Rightarrow> int \<Rightarrow> user option" where
  "load_user st i = find (\<lambda>u. user_id u = i) (users st)"

text \<open>\<^verbatim>\<open>current_user\<close>: the user of the session, \<open>None\<close> for the anonymous user.\<close>

definition current_user :: "world \<Rightarrow> user option" where
  "current_user st =
     (case current_session st of None \<Rightarrow> None | Some s \<Rightarrow> load_user st (session_user_id s))"

definition is_authenticated :: "world \<Rightarrow> bool" where
  "is_authenticated st = (current_user st \<noteq> None)"

definition login_user :: "user \<Rightarrow> bool \<Rightarrow> world \<Rightarrow> world" where
  "login_user u r st = st\<lparr>current_session := Some \<lparr>session_user_id = user_id u, remember = r\<rparr>\<rparr>"

definition logout_user :: "world \<Rightarrow> world" where
  "logout_user st = st\<lparr>current_session := None\<rparr>"

text \<open>The primary key that the table gives to a new row: one more than the largest in use.\<close>

definition next_user_id :: "user list \<Rightarrow> int" where
  "next_user_id us = fold max (map user_id us) 0 + 1"

section \<open>Forms\<close>

datatype http_method = GET | POST

text \<open>
  A request as a view function sees it: the method, whether the CSRF token of the form
  is valid, and the submitted fields. A field that was not submitted has empty data.
  The methods are those that the routes declare; a HEAD request is served as GET, and an
  OPTIONS request is answered by the framework without calling a view.
\<close>

record request =
  request_method :: http_method
  csrf_ok :: bool
  form :: "(string \<times> string) list"

definition field_data :: "request \<Rightarrow> string \<Rightarrow> string" where
  "field_data req name = (case map_of (form req) name of None \<Rightarrow> [] | Some v \<Rightarrow> v)"

text \<open>The data of a \<^verbatim>\<open>BooleanField\<close>: false when absent, \<^verbatim>\<open>'false'\<close> or empty.\<close>

definition boolean_data :: "request \<Rightarrow> string \<Rightarrow> bool" where
  "boolean_data req name =
     (case map_of (form req) name of None \<Rightarrow> False | Some v \<Rightarrow> v \<noteq> ''false'' \<and> v \<noteq> [])"

definition py_isspace :: "char \<Rightarrow> bool" where
  "py_isspace c =
     (let n = (of_char c :: nat) in
      (9 \<le> n \<and> n \<le> 13) \<or> (28 \<le> n \<and> n \<le> 32) \<or> n = 133 \<or> n = 160)"

definition strip :: "string \<Rightarrow> string" where
  "strip s = rev (dropWhile py_isspace (rev (dropWhile py_isspace s)))"

text \<open>\<^verbatim>\<open>DataRequired\<close>: the data is truthy and not only whitespace.\<close>

definition data_required :: "string \<Rightarrow> bool" where
  "data_required s = (s \<noteq> [] \<and> strip s \<noteq> [])"

text \<open>
  The errors of a field: those of the validators of WTForms by kind, those that
  \<^verbatim>\<open>app.py\<close> raises with their message.
\<close>

datatype field_error = FieldRequired | InvalidEmail | NotEqualTo string | CsrfFailed | Message string

type_synonym form_errors = "(string \<times> field_error list) list"

definition form_valid :: "form_errors \<Rightarrow> bool" where
  "form_valid errs = list_all (\<lambda>fe. snd fe = []) errs"

definition is_submitted :: "request \<Rightarrow> bool" where
  "is_submitted req = (request_method req = POST)"

definition csrf_errors :: "request \<Rightarrow> field_error list" where
  "csrf_errors req = (if csrf_ok req then [] else [CsrfFailed])"

definition required_errors :: "string \<Rightarrow> field_error list" where
  "required_errors s = (if data_required s then [] else [FieldRequired])"

definition login_form_errors :: "request \<Rightarrow> form_errors" where
  "login_form_errors req =
     [(''username'', required_errors (field_data req ''username'')),
      (''password'', required_errors (field_data req ''password'')),
      (''csrf_token'', csrf_errors req)]"

definition validate_username :: "world \<Rightarrow> string \<Rightarrow> field_error list" where
  "validate_username st data =
     (case find (\<lambda>u. username u = data) (users st) of
        Some u \<Rightarrow> [Message ''Please use a different username.'']
      | None \<Rightarrow> [])"

definition validate_email :: "world \<Rightarrow> string \<Rightarrow> field_error list" where
  "validate_email st data =
     (case find (\<lambda>u. email u = data) (users st) of
        Some u \<Rightarrow> [Message ''Please use a different email address.'']
      | None \<Rightarrow> [])"

text \<open>
  The validators of a field run in order, the method \<^verbatim>\<open>validate_<field>\<close> of the form
  last; a failing \<^verbatim>\<open>DataRequired\<close> stops the chain of its field, any other failure is
  recorded and the chain goes on. Every field is validated.
\<close>

definition registration_form_errors :: "env \<Rightarrow> request \<Rightarrow> world \<Rightarrow> form_errors" where
  "registration_form_errors env req st =
     (let u = field_data req ''username''; e = field_data req ''email'';
          p = field_data req ''password''; p2 = field_data req ''password2'' in
      [(''username'', if \<not> data_required u then [FieldRequired] else validate_username st u),
       (''email'',
          if \<not> data_required e then [FieldRequired]
          else (if email_valid env e then [] else [InvalidEmail]) @ validate_email st e),
       (''password'', required_errors p),
       (''password2'',
          if \<not> data_required p2 then [FieldRequired]
          else if p2 \<noteq> p then [NotEqualTo ''password''] else []),
       (''csrf_token'', csrf_errors req)])"

definition stock_form_errors :: "request \<Rightarrow> form_errors" where
  "stock_form_errors req =
     [(''ticker'', required_errors (field_data req ''ticker'')),
      (''csrf_token'', csrf_errors req)]"

text \<open>The errors that the rendered form shows: none unless the form was submitted and validated.\<close>

definition shown_errors :: "request \<Rightarrow> form_errors \<Rightarrow> form_errors" where
  "shown_errors req errs = (if is_submitted req then errs else [])"

section \<open>Routes\<close>

datatype endpoint =
  Index | Login | Logout | Register | Dashboard | Profile | StockTracker | Recommendations

text \<open>A rendered template with the arguments that the view passes to it.\<close>

datatype page =
    IndexPage
  | LoginPage form_errors
  | RegisterPage form_errors
  | DashboardPage "(string \<times> pyval) list"
  | ProfilePage "user option" profile
  | StockTrackerPage form_errors pyval "string option" "string option"
  | RecommendationsPage pyval
  | ServerErrorPage

datatype response = Redirect endpoint | Render page nat

type_synonym view = "env \<Rightarrow> request \<Rightarrow> world \<Rightarrow> (error + response) \<times> world"

definition index :: view where
  "index env req st = (Inr (Render IndexPage 200), st)"

definition login :: view where
  "login env req st =
     (if is_authenticated st then (Inr (Redirect Index), st)
      else
        let errs = login_form_errors req in
        if is_submitted req \<and> form_valid errs then
          (case find (\<lambda>u. username u = field_data req ''username'') (users st) of
             None \<Rightarrow> (Inr (Redirect Login), flash ''message'' ''Invalid username or password'' st)
           | Some u \<Rightarrow>
               if \<not> check_password env u (field_data req ''password'') then
                 (Inr (Redirect Login), flash ''message'' ''Invalid username or password'' st)
               else
                 (Inr (Redirect Index), login_user u (boolean_data req ''remember_me'') st))
        else (Inr (Render (LoginPage (shown_errors req errs)) 200), st))"

definition logout :: view where
  "logout env req st = (Inr (Redirect Index), logout_user st)"

definition register :: view where
  "register env req st =
     (if is_authenticated st then (Inr (Redirect Index), st)
      else
        let errs = registration_form_errors env req st in
        if is_submitted req \<and> form_valid errs then
          let u = set_password env
                    \<lparr>user_id = next_user_id (users st),
                     username = field_data req ''username'',
                     email = field_data req ''email'',
                     password_hash = []\<rparr>
                    (field_data req ''password'') in
          (Inr (Redirect Login),
           flash ''message'' ''Congratulations, you are now a registered user!''
             (st\<lparr>users := users st @ [u]\<rparr>))
        else (Inr (Render (RegisterPage (shown_errors req errs)) 200), st))"

text \<open>\<^verbatim>\<open>d[k] = v\<close> on a dict: a bound key keeps its place.\<close>

fun dict_store :: "(string \<times> pyval) list \<Rightarrow> string \<Rightarrow> pyval \<Rightarrow> (string \<times> pyval) list" where
  "dict_store [] k v = [(k, v)]"
| "dict_store ((k', v') # kvs) k v =
     (if k' = k then (k, v) # kvs else (k', v') # dict_store kvs k v)"

text \<open>\<^verbatim>\<open>{ticker: get_stock_data(ticker) for ticker in preferred_stocks}\<close>.\<close>

fun stock_data_dict ::
  "env \<Rightarrow> string list \<Rightarrow> (string \<times> pyval) list \<Rightarrow> world \<Rightarrow> (error + (string \<times> pyval) list) \<times> world"
where
  "stock_data_dict env [] acc st = (Inr acc, st)"
| "stock_data_dict env (ticker # tickers) acc st =
     (case get_stock_data env ticker st of
        (Inl e, st1) \<Rightarrow> (Inl e, st1)
      | (Inr d, st1) \<Rightarrow> stock_data_dict env tickers (dict_store acc ticker d) st1)"

definition dashboard :: view where
  "dashboard env req st =
     (case stock_data_dict env (preferred_stocks (mock_profile env (current_user st))) [] st of
        (Inl e, st1) \<Rightarrow> (Inl e, st1)
      | (Inr stock_data, st1) \<Rightarrow> (Inr (Render (DashboardPage stock_data) 200), st1))"

definition profile :: view where
  "profile env req st =
     (Inr (Render (ProfilePage (current_user st) (mock_profile env (current_user st))) 200), st)"

definition stock_tracker :: view where
  "stock_tracker env req st =
     (let errs = stock_form_errors req in
      if is_submitted req \<and> form_valid errs then
        let ticker = field_data req ''ticker'' in
        (case get_stock_data env ticker st of
           (Inl e, st1) \<Rightarrow> (Inl e, st1)
         | (Inr stock_data, st1) \<Rightarrow>
             if truthy stock_data then
               (case create_stock_graph env ticker stock_data of
                  Inl e \<Rightarrow> (Inl e, st1)
                | Inr graph_url \<Rightarrow>
                    (Inr (Render (StockTrackerPage errs stock_data (Some graph_url) (Some ticker)) 200),
                     st1))
             else
               (Inr (Render (StockTrackerPage errs stock_data None (Some ticker)) 200),
                flash ''danger'' ''Error retrieving stock data. Displaying mock data.'' st1))
      else (Inr (Render (StockTrackerPage (shown_errors req errs) PNone None None) 200), st))"

definition recommendations :: view where
  "recommendations env req st =
     (Inr (Render (RecommendationsPage (mock_recommendations env)) 200), st)"

text \<open>
  \<^verbatim>\<open>login_manager.unauthorized()\<close> with \<^verbatim>\<open>login_view = 'login'\<close>: the message of the
  login manager is flashed and the answer redirects to the login page.
\<close>

definition unauthorized :: "world \<Rightarrow> (error + response) \<times> world" where
  "unauthorized st =
     (Inr (Redirect Login), flash ''message'' ''Please log in to access this page.'' st)"

text \<open>The decorator \<^verbatim>\<open>@login_required\<close>.\<close>

definition login_required :: "view \<Rightarrow> view" where
  "login_required f env req st =
     (if \<not> is_authenticated st then unauthorized st else f env req st)"

text \<open>The view function that each route is bound to, with its decorators.\<close>

fun view_function :: "endpoint \<Rightarrow> view" where
  "view_function Index = index"
| "view_function Login = login"
| "view_function Logout = logout"
| "view_function Register = register"
| "view_function Dashboard = login_required dashboard"
| "view_function Profile = login_required profile"
| "view_function StockTracker = login_required stock_tracker"
| "view_function Recommendations = login_required recommendations"

text \<open>
  The error handler for status 500: the session of the database is rolled back (no view
  leaves a pending change when it raises) and the error page is rendered.
\<close>

definition internal_error :: "error \<Rightarrow> world \<Rightarrow> response \<times> world" where
  "internal_error e st = (Render ServerErrorPage 500, st)"

text \<open>A request to a route: the view runs, and an exception that it raises is answered by the error handler.\<close>

definition handle_request :: "env \<Rightarrow> endpoint \<Rightarrow> request \<Rightarrow> world \<Rightarrow> response \<times> world" where
  "handle_request env ep req st =
     (case view_function ep env req st of
        (Inr r, st1) \<Rightarrow> (r, st1)
      | (Inl e, st1) \<Rightarrow> internal_error e st1)"

section \<open>Predicates of the properties\<close>

fun is_dict :: "pyval \<Rightarrow> bool" where
  "is_dict (PDict kvs) = True"
| "is_dict v = False"

text \<open>
  The table as \<open>register\<close> leaves it: every stored username and e-mail address passed
  \<^verbatim>\<open>DataRequired\<close>.
\<close>

definition store_ok :: "world \<Rightarrow> bool" where
  "store_ok st = list_all (\<lambda>u. data_required (username u) \<and> data_required (email u)) (users st)"

section \<open>A concrete environment\<close>

text \<open>
  Modelled from the spec: \<^verbatim>\<open>get_mock_stock_data\<close> of the module \<^verbatim>\<open>data\<close> is not among the
  sources. The specification asks of it that it is deterministic per ticker and supplies
  enough points to render a chart, in the shape of a parsed time series (date to fields,
  the close price among them); the dates and prices below are placeholders.
\<close>

definition get_mock_stock_data :: "string \<Rightarrow> pyval" where
  "get_mock_stock_data ticker =
     PDict [(''2024-01-02'', PDict [(''1. open'', PStr ''100.0''), (''4. close'', PStr ''100.5'')]),
            (''2024-01-03'', PDict [(''1. open'', PStr ''100.5''), (''4. close'', PStr ''101.25'')])]"

text \<open>
  Modelled from the spec: \<^verbatim>\<open>get_mock_profile\<close> of the module \<^verbatim>\<open>data\<close> is not among the
  sources; the view reads the preferred tickers of the user from its result.
\<close>

definition get_mock_profile :: "user option \<Rightarrow> profile" where
  "get_mock_profile u = \<lparr>preferred_stocks = [''AAPL'', ''GOOGL'']\<rparr>"

text \<open>
  A conversion of plain decimal literals (digits, then optionally a point and digits),
  read exactly; the builtin \<^verbatim>\<open>float\<close> accepts each of them and rejects a string without
  a digit.
\<close>

definition is_digit :: "char \<Rightarrow> bool" where
  "is_digit c = (48 \<le> (of_char c :: nat) \<and> (of_char c :: nat) \<le> 57)"

fun digits_value :: "nat \<Rightarrow> string \<Rightarrow> nat" where
  "digits_value acc [] = acc"
| "digits_value acc (c # cs) = digits_value (10 * acc + (of_char c - 48)) cs"

definition decimal_float :: "string \<Rightarrow> pyfloat option" where
  "decimal_float s =
     (let ip = takeWhile is_digit s; rest = dropWhile is_digit s in
      if ip = [] then None
      else case rest of
        [] \<Rightarrow> Some (Fin (of_nat (digits_value 0 ip)))
      | c # fp \<Rightarrow>
          if c = CHR ''.'' \<and> fp \<noteq> [] \<and> list_all is_digit fp
          then Some (Fin (of_nat (digits_value 0 (ip @ fp)) / 10 ^ length fp))
          else None)"

text \<open>
  An environment in which the network answers every request with \<open>answer\<close>, the image is
  the eight bytes of the PNG signature, and a password hash is the password behind a
  fixed prefix.
\<close>

definition example_env :: "http_outcome \<Rightarrow> env" where
  "example_env answer =
     \<lparr>api_key = ''your_api_key_here'',
      requests_get = (\<lambda>n url. answer),
      mock_stock_data = get_mock_stock_data,
      mock_profile = get_mock_profile,
      mock_recommendations = PList [],
      float_of_str = decimal_float,
      float_of_int = (\<lambda>i. Some (Fin (of_int i))),
      savefig_png = (\<lambda>title dates prices. [0x89, 0x50, 0x4E, 0x47, 0x0D, 0x0A, 0x1A, 0x0A]),
      generate_password_hash = (\<lambda>p. ''plain$'' @ p),
      check_password_hash = (\<lambda>h p. h = ''plain$'' @ p),
      email_valid = (\<lambda>e. CHR ''@'' \<in> set e)\<rparr>"

definition alice :: user where
  "alice =
     \<lparr>user_id = 1, username = ''alice'', email = ''alice@example.com'',
      password_hash = ''plain$secret123''\<rparr>"

text \<open>The application with one registered user, without a session and with the session of that user.\<close>

definition anonymous_world :: world where
  "anonymous_world =
     \<lparr>users = [alice], current_session = None, flashes = [], logged = [], http_calls = 0\<rparr>"

definition alice_world :: world where
  "alice_world =
     anonymous_world\<lparr>current_session := Some \<lparr>session_user_id = 1, remember = False\<rparr>\<rparr>"

definition post :: "(string \<times> string) list \<Rightarrow> request" where
  "post submitted = \<lparr>request_method = POST, csrf_ok = True, form = submitted\<rparr>"

text \<open>A time series whose second close value is not a number.\<close>

definition bad_series :: pyval where
  "bad_series = PDict [(''2024-01-02'', PDict [(''4. close'', PStr ''100.5'')]),
                       (''2024-01-03'', PDict [(''4. close'', PStr ''abc'')])]"

section \<open>Properties of the stock data retrieval\<close>

lemma py_in_dict: "is_dict data \<Longrightarrow> \<exists>b. py_in k data = Inr b"
  by (cases data) simp_all

lemma py_get_dict: "is_dict data \<Longrightarrow> \<exists>v. py_get data k = Inr v"
  by (cases data) simp_all

text \<open>
  When the request raises a \<^verbatim>\<open>RequestException\<close> or the parsed body is a JSON object,
  \<open>get_stock_data\<close> raises nothing, and every \<^verbatim>\<open>RequestException\<close> resolves to the mock
  series of the ticker.
\<close>

lemma get_stock_data_no_raise:
  assumes answer: "case requests_get env (http_calls st) (stock_url env ticker) of
                     RequestException e \<Rightarrow> True | Json data \<Rightarrow> is_dict data"
    and mock: "truthy (mock_stock_data env ticker)"
  shows "(\<exists>series. fst (get_stock_data env ticker st) = Inr series \<and> truthy series)
       \<and> (\<forall>e. requests_get env (http_calls st) (stock_url env ticker) = RequestException e
              \<longrightarrow> fst (get_stock_data env ticker st) = Inr (mock_stock_data env ticker))"
proof (cases "requests_get env (http_calls st) (stock_url env ticker)")
  case (RequestException e)
  with mock show ?thesis by (simp add: get_stock_data_def)
next
  case (Json data)
  with answer have d: "is_dict data" by simp
  obtain b where b: "py_in ''Error Message'' data = Inr b" using py_in_dict [OF d] by blast
  obtain v where v: "py_get data ''Time Series (Daily)'' = Inr v" using py_get_dict [OF d] by blast
  show ?thesis using Json b v mock by (cases b) (simp_all add: get_stock_data_def Let_def)
qed

lemma get_stock_data_no_raise_example:
  "truthy (mock_stock_data (example_env (RequestException ''timeout'')) [])
   \<and> fst (get_stock_data (example_env (RequestException ''timeout'')) [] anonymous_world)
       = Inr (get_mock_stock_data [])"
  using get_stock_data_no_raise [of "example_env (RequestException ''timeout'')" anonymous_world "[]"]
  by (simp add: example_env_def get_mock_stock_data_def)

text \<open>
  C1 at its failing input: the provider answers the request for \<^verbatim>\<open>AAPL\<close> with a body that
  parses to the JSON array \<^verbatim>\<open>[]\<close>. The membership test is false, the array has no method
  \<^verbatim>\<open>get\<close>, and the AttributeError, which is not a \<^verbatim>\<open>RequestException\<close>, leaves
  \<open>get_stock_data\<close> instead of resolving to the mock series. The sibling path, a body
  \<^verbatim>\<open>{}\<close> that lacks the series as well, does fall back to the mock series.
\<close>

theorem get_stock_data_array_body_raises:
  "py_in ''Error Message'' (PList []) = Inr False
   \<and> py_get (PList []) ''Time Series (Daily)'' = Inl AttributeError
   \<and> fst (get_stock_data (example_env (Json (PList []))) ''AAPL'' anonymous_world)
       = Inl AttributeError
   \<and> fst (get_stock_data (example_env (Json (PDict []))) ''AAPL'' anonymous_world)
       = Inr (get_mock_stock_data ''AAPL'')"
  by (simp add: get_stock_data_def example_env_def)

text \<open>
  C6, as the code has it. When the body parses to a JSON object: with a field
  \<^verbatim>\<open>Error Message\<close> the error is logged and the mock series returned; without the field
  \<^verbatim>\<open>Time Series (Daily)\<close>, or with a value of it that is empty or otherwise false, the
  mock series is returned and nothing is logged; otherwise the value of the field is
  returned as it is.
\<close>

theorem get_stock_data_policy:
  assumes "requests_get env (http_calls st) (stock_url env ticker) = Json (PDict kvs)"
  shows "fst (get_stock_data env ticker st) =
           (if ''Error Message'' \<in> set (map fst kvs) then Inr (mock_stock_data env ticker)
            else case map_of kvs ''Time Series (Daily)'' of
                   None \<Rightarrow> Inr (mock_stock_data env ticker)
                 | Some time_series \<Rightarrow>
                     if truthy time_series then Inr time_series
                     else Inr (mock_stock_data env ticker))
       \<and> logged (snd (get_stock_data env ticker st)) =
           (if ''Error Message'' \<in> set (map fst kvs)
            then logged st @ [''Error retrieving data for '' @ ticker] else logged st)"
  using assms by (simp add: get_stock_data_def logger_error_def split: option.split)

theorem get_stock_data_policy_witness:
  "fst (get_stock_data (example_env (Json (PDict [(''Time Series (Daily)'',
         PDict [(''2024-01-02'', PDict [(''4. close'', PStr ''7.5'')])])]))) ''AAPL'' anonymous_world)
     = Inr (PDict [(''2024-01-02'', PDict [(''4. close'', PStr ''7.5'')])])"
  using get_stock_data_policy [of "example_env (Json (PDict [(''Time Series (Daily)'',
         PDict [(''2024-01-02'', PDict [(''4. close'', PStr ''7.5'')])])]))" anonymous_world "''AAPL''"]
  by (simp add: example_env_def)

text \<open>
  C6 as stated fails: a response whose field \<^verbatim>\<open>Time Series (Daily)\<close> is present and
  empty, without \<^verbatim>\<open>Error Message\<close>, is answered with the mock series, not with the
  parsed (empty) series.
\<close>

theorem get_stock_data_verbatim_counterexample:
  "py_in ''Error Message'' (PDict [(''Time Series (Daily)'', PDict [])]) = Inr False
   \<and> py_in ''Time Series (Daily)'' (PDict [(''Time Series (Daily)'', PDict [])]) = Inr True
   \<and> py_get (PDict [(''Time Series (Daily)'', PDict [])]) ''Time Series (Daily)'' = Inr (PDict [])
   \<and> fst (get_stock_data (example_env (Json (PDict [(''Time Series (Daily)'', PDict [])])))
            ''AAPL'' anonymous_world) = Inr (get_mock_stock_data ''AAPL'')
   \<and> get_mock_stock_data ''AAPL'' \<noteq> PDict []"
  by (simp add: get_stock_data_def example_env_def get_mock_stock_data_def)

section \<open>Properties of the graph creation\<close>

lemma close_prices_ok:
  assumes "\<forall>d \<in> set dates. \<exists>row v f. map_of kvs d = Some (PDict row)
              \<and> map_of row ''4. close'' = Some v \<and> py_float env v = Inr f"
  shows "\<exists>prices. close_prices env (PDict kvs) dates = Inr prices \<and> length prices = length dates"
  using assms
proof (induction dates)
  case Nil
  then show ?case by simp
next
  case (Cons d dates)
  then obtain row v f where "map_of kvs d = Some (PDict row)"
    "map_of row ''4. close'' = Some v" "py_float env v = Inr f" by auto
  moreover from Cons obtain prices where "close_prices env (PDict kvs) dates = Inr prices"
    "length prices = length dates" by auto
  ultimately show ?case by simp
qed

lemma close_prices_fails:
  assumes "d \<in> set dates" "map_of kvs d = Some row" "py_getitem row ''4. close'' = Inr v"
    "py_float env v = Inl e"
  shows "\<exists>e'. close_prices env (PDict kvs) dates = Inl e'"
  using assms
proof (induction dates)
  case Nil
  then show ?case by simp
next
  case (Cons a dates)
  show ?case
  proof (cases "a = d")
    case True
    with Cons.prems show ?thesis by simp
  next
    case False
    with Cons obtain e' where "close_prices env (PDict kvs) dates = Inl e'" by auto
    then show ?thesis by (simp split: option.split sum.split)
  qed
qed

lemma startswith_append: "startswith p (p @ s)"
  by (induction p) simp_all

text \<open>
  C7. For every series in which every date has a close value that \<^verbatim>\<open>float\<close> accepts,
  \<open>create_stock_graph\<close> returns a non-empty string: the prefix
  \<^verbatim>\<open>data:image/png;base64,\<close> followed by the base64 encoding of the image rendered from
  the dates and the close prices.
\<close>

theorem create_stock_graph_data_uri:
  assumes "\<forall>d \<in> set (map fst kvs). \<exists>row v f. map_of kvs d = Some (PDict row)
              \<and> map_of row ''4. close'' = Some v \<and> py_float env v = Inr f"
  shows "\<exists>prices url. close_prices env (PDict kvs) (map fst kvs) = Inr prices
           \<and> create_stock_graph env ticker (PDict kvs) = Inr url
           \<and> url = ''data:image/png;base64,''
                 @ b64encode (savefig_png env (''Stock Prices for '' @ ticker) (map fst kvs) prices)
           \<and> url \<noteq> [] \<and> startswith ''data:image/png;base64,'' url"
proof -
  obtain prices where p: "close_prices env (PDict kvs) (map fst kvs) = Inr prices"
    using close_prices_ok [OF assms] by blast
  have "startswith ''data:image/png;base64,'' (''data:image/png;base64,''
          @ b64encode (savefig_png env (''Stock Prices for '' @ ticker) (map fst kvs) prices))"
    by (rule startswith_append)
  with p show ?thesis by (simp add: create_stock_graph_def)
qed

theorem create_stock_graph_data_uri_witness:
  "create_stock_graph (example_env (RequestException [])) ''AAPL'' (get_mock_stock_data ''AAPL'')
     = Inr ''data:image/png;base64,iVBORw0KGgo=''"
  using create_stock_graph_data_uri [of
    "[(''2024-01-02'', PDict [(''1. open'', PStr ''100.0''), (''4. close'', PStr ''100.5'')]),
      (''2024-01-03'', PDict [(''1. open'', PStr ''100.5''), (''4. close'', PStr ''101.25'')])]"
    "example_env (RequestException [])" "''AAPL''"]
  by (simp add: example_env_def get_mock_stock_data_def decimal_float_def is_digit_def
        b64_char_def b64_alphabet_def)

text \<open>
  C2, as the code has it. For every series with a date whose close value \<^verbatim>\<open>float\<close>
  rejects, \<open>create_stock_graph\<close> raises and yields no image. The view
  \<open>stock_tracker\<close> does not catch the exception: it leaves the view, and the request is
  answered with the error page and status 500 instead of the stock tracker page.
\<close>

theorem create_stock_graph_malformed:
  assumes bad: "d \<in> set (map fst kvs)" "map_of kvs d = Some row"
      "py_getitem row ''4. close'' = Inr v" "py_float env v = Inl e"
    and submitted: "is_submitted req" "form_valid (stock_form_errors req)"
    and data: "get_stock_data env (field_data req ''ticker'') st = (Inr (PDict kvs), st1)"
    and auth: "is_authenticated st"
  shows "(\<exists>e'. create_stock_graph env ticker (PDict kvs) = Inl e')
       \<and> (\<exists>e'. stock_tracker env req st = (Inl e', st1))
       \<and> handle_request env StockTracker req st = (Render ServerErrorPage 500, st1)"
proof -
  have graph: "\<exists>e'. create_stock_graph env t (PDict kvs) = Inl e'" for t
    using close_prices_fails [OF bad] by (auto simp add: create_stock_graph_def)
  from bad(1) have ne: "kvs \<noteq> []" by auto
  obtain e' where e': "create_stock_graph env (field_data req ''ticker'') (PDict kvs) = Inl e'"
    using graph by blast
  have view: "stock_tracker env req st = (Inl e', st1)"
    using submitted data ne e' by (simp add: stock_tracker_def Let_def)
  then have "handle_request env StockTracker req st = (Render ServerErrorPage 500, st1)"
    using auth by (simp add: handle_request_def login_required_def internal_error_def)
  with graph view show ?thesis by blast
qed

theorem create_stock_graph_malformed_witness:
  "create_stock_graph (example_env (Json (PDict [(''Time Series (Daily)'', bad_series)])))
      ''AAPL'' bad_series = Inl ValueError
   \<and> handle_request (example_env (Json (PDict [(''Time Series (Daily)'', bad_series)])))
       StockTracker (post [(''ticker'', ''AAPL'')]) alice_world
     = (Render ServerErrorPage 500, alice_world\<lparr>http_calls := 1\<rparr>)"
  using create_stock_graph_malformed [of "''2024-01-03''"
      "[(''2024-01-02'', PDict [(''4. close'', PStr ''100.5'')]),
        (''2024-01-03'', PDict [(''4. close'', PStr ''abc'')])]"
      "PDict [(''4. close'', PStr ''abc'')]" "PStr ''abc''"
      "example_env (Json (PDict [(''Time Series (Daily)'', bad_series)]))" ValueError
      "post [(''ticker'', ''AAPL'')]" alice_world "alice_world\<lparr>http_calls := 1\<rparr>" "''AAPL''"]
  by (simp add: bad_series_def example_env_def decimal_float_def is_digit_def post_def
        is_submitted_def form_valid_def stock_form_errors_def required_errors_def
        data_required_def strip_def py_isspace_def csrf_errors_def field_data_def
        get_stock_data_def alice_world_def anonymous_world_def alice_def
        is_authenticated_def current_user_def load_user_def create_stock_graph_def)

text \<open>
  C2 as stated fails: with a close value \<^verbatim>\<open>'abc'\<close> in the series of the provider the
  view raises a ValueError, and the answer is the error page with status 500, not the
  stock tracker page without a chart.
\<close>

theorem stock_tracker_malformed_counterexample:
  "stock_tracker (example_env (Json (PDict [(''Time Series (Daily)'', bad_series)])))
       (post [(''ticker'', ''AAPL'')]) alice_world
     = (Inl ValueError, alice_world\<lparr>http_calls := 1\<rparr>)
   \<and> handle_request (example_env (Json (PDict [(''Time Series (Daily)'', bad_series)])))
       StockTracker (post [(''ticker'', ''AAPL'')]) alice_world
     = (Render ServerErrorPage 500, alice_world\<lparr>http_calls := 1\<rparr>)"
  by (simp add: bad_series_def example_env_def decimal_float_def is_digit_def post_def
        is_submitted_def form_valid_def stock_form_errors_def required_errors_def
        data_required_def strip_def py_isspace_def csrf_errors_def field_data_def
        get_stock_data_def alice_world_def anonymous_world_def alice_def
        is_authenticated_def current_user_def load_user_def stock_tracker_def
        create_stock_graph_def handle_request_def login_required_def internal_error_def)

section \<open>Properties of the routes\<close>

text \<open>
  C3 at its failing input: a POST of the ticker \<^verbatim>\<open>AAPL\<close> while the request to the provider
  times out. The page is rendered from the mock series with status 200 and the failure is
  logged, but no warning is flashed: the branch that flashes runs only when
  \<open>get_stock_data\<close> returns an empty value.
\<close>

theorem stock_tracker_provider_failure:
  "stock_tracker (example_env (RequestException ''timeout'')) (post [(''ticker'', ''AAPL'')])
       alice_world
     = (Inr (Render (StockTrackerPage [(''ticker'', []), (''csrf_token'', [])]
                (get_mock_stock_data ''AAPL'') (Some ''data:image/png;base64,iVBORw0KGgo='')
                (Some ''AAPL'')) 200),
        alice_world\<lparr>logged := [''Request failed for AAPL: timeout''], http_calls := 1\<rparr>)
   \<and> flashes (snd (handle_request (example_env (RequestException ''timeout'')) StockTracker
         (post [(''ticker'', ''AAPL'')]) alice_world)) = []"
  by (simp add: example_env_def decimal_float_def is_digit_def post_def
        is_submitted_def form_valid_def stock_form_errors_def required_errors_def
        data_required_def strip_def py_isspace_def csrf_errors_def field_data_def
        get_stock_data_def alice_world_def anonymous_world_def alice_def logger_error_def
        is_authenticated_def current_user_def load_user_def stock_tracker_def
        create_stock_graph_def handle_request_def login_required_def internal_error_def
        get_mock_stock_data_def b64_char_def b64_alphabet_def)

section \<open>Properties of registration and login\<close>

lemma find_username_mem:
  "name \<in> username ` set us \<Longrightarrow> \<exists>u. find (\<lambda>u. username u = name) us = Some u"
  by (induction us) auto

lemma find_email_mem:
  "addr \<in> email ` set us \<Longrightarrow> \<exists>u. find (\<lambda>u. email u = addr) us = Some u"
  by (induction us) auto

lemma store_ok_username:
  "store_ok st \<Longrightarrow> name \<in> username ` set (users st) \<Longrightarrow> data_required name"
  by (auto simp add: store_ok_def list_all_iff)

lemma store_ok_email:
  "store_ok st \<Longrightarrow> addr \<in> email ` set (users st) \<Longrightarrow> data_required addr"
  by (auto simp add: store_ok_def list_all_iff)

lemma register_store_ok:
  "store_ok st \<Longrightarrow> store_ok (snd (register env req st))"
  by (auto simp add: register_def Let_def store_ok_def flash_def set_password_def
        registration_form_errors_def form_valid_def split: if_splits)

text \<open>
  C4. For every submitted registration without a session, on a table whose rows were
  written by \<open>register\<close>: when the username is already in the table, the form is shown
  again with the error of \<open>validate_username\<close> on the field; when the e-mail address is
  already in the table, with the error of \<open>validate_email\<close> on the field; in both cases no
  row is created and the state is unchanged.
\<close>

theorem register_duplicate:
  assumes anon: "\<not> is_authenticated st" and submitted: "is_submitted req" and ok: "store_ok st"
  shows "(field_data req ''username'' \<in> username ` set (users st) \<longrightarrow>
            (\<exists>errs. register env req st = (Inr (Render (RegisterPage errs) 200), st)
               \<and> map_of errs ''username'' = Some [Message ''Please use a different username.'']))
       \<and> (field_data req ''email'' \<in> email ` set (users st) \<longrightarrow>
            (\<exists>errs es. register env req st = (Inr (Render (RegisterPage errs) 200), st)
               \<and> map_of errs ''email'' = Some es
               \<and> Message ''Please use a different email address.'' \<in> set es))"
proof (intro conjI impI)
  assume dup: "field_data req ''username'' \<in> username ` set (users st)"
  from store_ok_username [OF ok dup] have req: "data_required (field_data req ''username'')" .
  from find_username_mem [OF dup] obtain u
    where "find (\<lambda>u. username u = field_data req ''username'') (users st) = Some u" by blast
  with req anon submitted
  show "\<exists>errs. register env req st = (Inr (Render (RegisterPage errs) 200), st)
          \<and> map_of errs ''username'' = Some [Message ''Please use a different username.'']"
    by (simp add: register_def Let_def registration_form_errors_def validate_username_def
          form_valid_def shown_errors_def)
next
  assume dup: "field_data req ''email'' \<in> email ` set (users st)"
  from store_ok_email [OF ok dup] have req: "data_required (field_data req ''email'')" .
  from find_email_mem [OF dup] obtain u
    where "find (\<lambda>u. email u = field_data req ''email'') (users st) = Some u" by blast
  with req anon submitted
  show "\<exists>errs es. register env req st = (Inr (Render (RegisterPage errs) 200), st)
          \<and> map_of errs ''email'' = Some es
          \<and> Message ''Please use a different email address.'' \<in> set es"
    by (simp add: register_def Let_def registration_form_errors_def validate_email_def
          form_valid_def shown_errors_def)
qed

theorem register_duplicate_witness:
  "store_ok anonymous_world
   \<and> register (example_env (RequestException [])) (post [(''username'', ''alice''),
        (''email'', ''alice@example.com''), (''password'', ''pw''), (''password2'', ''pw'')])
       anonymous_world
     = (Inr (Render (RegisterPage
          [(''username'', [Message ''Please use a different username.'']),
           (''email'', [Message ''Please use a different email address.'']),
           (''password'', []), (''password2'', []), (''csrf_token'', [])]) 200), anonymous_world)"
  using register_duplicate [of anonymous_world "post [(''username'', ''alice''),
        (''email'', ''alice@example.com''), (''password'', ''pw''), (''password2'', ''pw'')]"
        "example_env (RequestException [])"]
  by (simp add: store_ok_def anonymous_world_def alice_def data_required_def strip_def
        py_isspace_def post_def is_submitted_def is_authenticated_def current_user_def
        field_data_def register_def registration_form_errors_def validate_username_def
        validate_email_def required_errors_def csrf_errors_def form_valid_def shown_errors_def
        example_env_def)

text \<open>
  C5. For every submitted, valid login form without a session: the user with the submitted
  username is logged in exactly when that user exists and the password verifies; an unknown
  username and a wrong password have the same outcome, the same flashed message and the same
  redirect to the login page.
\<close>

theorem login_authenticate:
  assumes anon: "\<not> is_authenticated st" and submitted: "is_submitted req"
    and valid: "form_valid (login_form_errors req)"
  shows "(\<forall>u. find (\<lambda>u. username u = field_data req ''username'') (users st) = Some u
              \<and> check_password env u (field_data req ''password'')
            \<longrightarrow> login env req st
                  = (Inr (Redirect Index), login_user u (boolean_data req ''remember_me'') st))
       \<and> (find (\<lambda>u. username u = field_data req ''username'') (users st) = None
            \<longrightarrow> login env req st
                  = (Inr (Redirect Login), flash ''message'' ''Invalid username or password'' st))
       \<and> (\<forall>u. find (\<lambda>u. username u = field_data req ''username'') (users st) = Some u
              \<and> \<not> check_password env u (field_data req ''password'')
            \<longrightarrow> login env req st
                  = (Inr (Redirect Login), flash ''message'' ''Invalid username or password'' st))"
  using assms by (simp add: login_def Let_def)

theorem login_authenticate_witness:
  "login (example_env (RequestException [])) (post [(''username'', ''alice''),
       (''password'', ''secret123'')]) anonymous_world
     = (Inr (Redirect Index), alice_world)
   \<and> login (example_env (RequestException [])) (post [(''username'', ''alice''),
       (''password'', ''wrong'')]) anonymous_world
     = (Inr (Redirect Login), flash ''message'' ''Invalid username or password'' anonymous_world)
   \<and> login (example_env (RequestException [])) (post [(''username'', ''bob''),
       (''password'', ''secret123'')]) anonymous_world
     = (Inr (Redirect Login), flash ''message'' ''Invalid username or password'' anonymous_world)"
  using login_authenticate [of anonymous_world "post [(''username'', ''alice''),
       (''password'', ''secret123'')]" "example_env (RequestException [])"]
    login_authenticate [of anonymous_world "post [(''username'', ''alice''),
       (''password'', ''wrong'')]" "example_env (RequestException [])"]
    login_authenticate [of anonymous_world "post [(''username'', ''bob''),
       (''password'', ''secret123'')]" "example_env (RequestException [])"]
  by (simp add: anonymous_world_def alice_world_def alice_def data_required_def strip_def
        py_isspace_def post_def is_submitted_def is_authenticated_def current_user_def
        field_data_def boolean_data_def login_form_errors_def required_errors_def
        csrf_errors_def form_valid_def check_password_def login_user_def example_env_def)

text \<open>
  C9. For every request to a protected route without a session, the answer is a redirect to
  the login page; the answer and the state do not depend on the view behind the decorator,
  which is not called.
\<close>

theorem login_required_redirects:
  assumes "current_session st = None"
    and "ep \<in> {Dashboard, Profile, StockTracker, Recommendations}"
  shows "handle_request env ep req st
           = (Redirect Login, flash ''message'' ''Please log in to access this page.'' st)
       \<and> (\<forall>f. login_required f env req st = unauthorized st)"
  using assms
  by (auto simp add: handle_request_def login_required_def unauthorized_def
        is_authenticated_def current_user_def)

theorem login_required_redirects_witness:
  "handle_request (example_env (RequestException [])) Dashboard
       \<lparr>request_method = GET, csrf_ok = False, form = []\<rparr> anonymous_world
     = (Redirect Login, flash ''message'' ''Please log in to access this page.'' anonymous_world)"
  using login_required_redirects [of anonymous_world Dashboard "example_env (RequestException [])"
      "\<lparr>request_method = GET, csrf_ok = False, form = []\<rparr>"]
  by (simp add: anonymous_world_def)

text \<open>
  C10. For every request to the login or the registration page with an authenticated user,
  the answer is a redirect to the index page and the state is unchanged: no password is
  checked, no row is created, whatever the form holds.
\<close>

theorem authenticated_redirects_to_index:
  assumes "is_authenticated st"
  shows "login env req st = (Inr (Redirect Index), st)
       \<and> register env req st = (Inr (Redirect Index), st)
       \<and> handle_request env Login req st = (Redirect Index, st)
       \<and> handle_request env Register req st = (Redirect Index, st)"
  using assms by (simp add: login_def register_def handle_request_def)

theorem authenticated_redirects_to_index_witness:
  "is_authenticated alice_world
   \<and> handle_request (example_env (RequestException [])) Register
       (post [(''username'', ''bob''), (''email'', ''bob@example.com''), (''password'', ''pw''),
              (''password2'', ''pw'')]) alice_world = (Redirect Index, alice_world)
   \<and> handle_request (example_env (RequestException [])) Login
       (post [(''username'', ''alice''), (''password'', ''wrong'')]) alice_world
     = (Redirect Index, alice_world)"
  using authenticated_redirects_to_index [of alice_world "example_env (RequestException [])"
      "post [(''username'', ''bob''), (''email'', ''bob@example.com''), (''password'', ''pw''),
              (''password2'', ''pw'')]"]
    authenticated_redirects_to_index [of alice_world "example_env (RequestException [])"
      "post [(''username'', ''alice''), (''password'', ''wrong'')]"]
  by (simp add: alice_world_def anonymous_world_def alice_def is_authenticated_def
        current_user_def load_user_def)

section \<open>Properties of the password methods\<close>




end
